theory Spec2Isabelle
  imports Complex_Main
begin

section \<open>The language's Date built-ins used by the move validator\<close>

text \<open>
  \<open>processPlayerMove\<close> reads the clock with \<open>Date.now()\<close>, stores
  \<open>new Date(now).toUTCString()\<close> and reads it back with \<open>Date.parse\<close>.
  Time values are whole milliseconds since 1970-01-01T00:00:00Z, modelled as \<open>int\<close>;
  the day and year arithmetic below is the one of ECMA-262, section "Time Values and
  Time Range" (Day, DayFromYear, YearFromTime, MonthFromTime, DateFromTime, WeekDay,
  MakeTime, MakeDay, MakeDate).  A JavaScript number that may be \<open>NaN\<close> is an
  \<open>int option\<close>, \<open>None\<close> being \<open>NaN\<close>.
\<close>

definition msPerDay :: int where
  "msPerDay = 86400000"

definition Day :: "int \<Rightarrow> int" where
  "Day t = t div msPerDay"

definition TimeWithinDay :: "int \<Rightarrow> int" where
  "TimeWithinDay t = t mod msPerDay"

definition DayFromYear :: "int \<Rightarrow> int" where
  "DayFromYear y =
     365 * (y - 1970) + (y - 1969) div 4 - (y - 1901) div 100 + (y - 1601) div 400"

definition DaysInYear :: "int \<Rightarrow> int" where
  "DaysInYear y =
     (if y mod 4 \<noteq> 0 then 365
      else if y mod 100 \<noteq> 0 then 366
      else if y mod 400 \<noteq> 0 then 365
      else 366)"

text \<open>
  \<open>YearFromTime\<close> is "the largest integer \<open>y\<close> such that \<open>TimeFromYear y \<le> t\<close>":
  the search starts at a year whose successor begins after the day and walks down.
\<close>

function year_down :: "int \<Rightarrow> int \<Rightarrow> int" where
  "year_down d y = (if DayFromYear y \<le> d then y else year_down d (y - 1))"
  by pat_completeness auto
termination
  by (relation "measure (\<lambda>(d, y). nat (DayFromYear y - d))")
     (auto simp: DayFromYear_def)

declare year_down.simps [simp del]

definition YearFromDay :: "int \<Rightarrow> int" where
  "YearFromDay d = year_down d (if d < 0 then 1969 else 1970 + d div 365)"

definition YearFromTime :: "int \<Rightarrow> int" where
  "YearFromTime t = YearFromDay (Day t)"

definition InLeapYear :: "int \<Rightarrow> int" where
  "InLeapYear t = (if DaysInYear (YearFromTime t) = 366 then 1 else 0)"

definition DayWithinYear :: "int \<Rightarrow> int" where
  "DayWithinYear t = Day t - DayFromYear (YearFromTime t)"

definition MonthFromTime :: "int \<Rightarrow> int" where
  "MonthFromTime t =
     (let d = DayWithinYear t; L = InLeapYear t in
      if d < 31 then 0
      else if d < 59 + L then 1
      else if d < 90 + L then 2
      else if d < 120 + L then 3
      else if d < 151 + L then 4
      else if d < 181 + L then 5
      else if d < 212 + L then 6
      else if d < 243 + L then 7
      else if d < 273 + L then 8
      else if d < 304 + L then 9
      else if d < 334 + L then 10
      else 11)"

definition DateFromTime :: "int \<Rightarrow> int" where
  "DateFromTime t =
     (let d = DayWithinYear t; L = InLeapYear t; m = MonthFromTime t in
      if m = 0 then d + 1
      else if m = 1 then d - 30
      else if m = 2 then d - 58 - L
      else if m = 3 then d - 89 - L
      else if m = 4 then d - 119 - L
      else if m = 5 then d - 150 - L
      else if m = 6 then d - 180 - L
      else if m = 7 then d - 211 - L
      else if m = 8 then d - 242 - L
      else if m = 9 then d - 272 - L
      else if m = 10 then d - 303 - L
      else d - 333 - L)"

definition WeekDay :: "int \<Rightarrow> int" where
  "WeekDay t = (Day t + 4) mod 7"

definition HourFromTime :: "int \<Rightarrow> int" where
  "HourFromTime t = (t div 3600000) mod 24"

definition MinFromTime :: "int \<Rightarrow> int" where
  "MinFromTime t = (t div 60000) mod 60"

definition SecFromTime :: "int \<Rightarrow> int" where
  "SecFromTime t = (t div 1000) mod 60"

definition MakeTime :: "int \<Rightarrow> int \<Rightarrow> int \<Rightarrow> int \<Rightarrow> int" where
  "MakeTime h m s ms = h * 3600000 + m * 60000 + s * 1000 + ms"

definition MakeDay :: "int \<Rightarrow> int \<Rightarrow> int \<Rightarrow> int" where
  "MakeDay year month date =
     (let ym = year + month div 12;
          mn = month mod 12;
          L = (if DaysInYear ym = 366 then 1 else 0);
          first =
            (if mn = 0 then 0
             else if mn = 1 then 31
             else if mn = 2 then 59 + L
             else if mn = 3 then 90 + L
             else if mn = 4 then 120 + L
             else if mn = 5 then 151 + L
             else if mn = 6 then 181 + L
             else if mn = 7 then 212 + L
             else if mn = 8 then 243 + L
             else if mn = 9 then 273 + L
             else if mn = 10 then 304 + L
             else 334 + L)
      in DayFromYear ym + first + date - 1)"

definition MakeDate :: "int \<Rightarrow> int \<Rightarrow> int" where
  "MakeDate day time = day * msPerDay + time"

subsection \<open>Rendering and reading the UTC string\<close>

definition dayNames :: "string list" where
  "dayNames = [''Sun'', ''Mon'', ''Tue'', ''Wed'', ''Thu'', ''Fri'', ''Sat'']"

definition monthNames :: "string list" where
  "monthNames = [''Jan'', ''Feb'', ''Mar'', ''Apr'', ''May'', ''Jun'',
                 ''Jul'', ''Aug'', ''Sep'', ''Oct'', ''Nov'', ''Dec'']"

definition digit_char :: "nat \<Rightarrow> char" where
  "digit_char n = ''0123456789'' ! (n mod 10)"

fun decimal :: "nat \<Rightarrow> string" where
  "decimal n = (if n < 10 then [digit_char n] else decimal (n div 10) @ [digit_char n])"

declare decimal.simps [simp del]

definition padStart :: "nat \<Rightarrow> string \<Rightarrow> string" where
  "padStart w s = replicate (w - length s) CHR ''0'' @ s"

text \<open>
  \<open>new Date(v)\<close> keeps \<open>v\<close> when it is within 8.64e15 ms of the epoch and holds
  \<open>NaN\<close> otherwise, for which \<open>toUTCString\<close> gives \<open>Invalid Date\<close>.  Otherwise
  the string is weekday, comma, two-digit day, month name, year (at least four digits,
  with a minus sign before a negative year), hours, minutes and seconds, and \<open>GMT\<close>:
  the milliseconds are not written.
\<close>

definition toUTCString :: "int \<Rightarrow> string" where
  "toUTCString tv =
     (if \<bar>tv\<bar> > 8640000000000000 then ''Invalid Date''
      else
        let yv = YearFromTime tv in
        dayNames ! nat (WeekDay tv) @ '', '' @
        padStart 2 (decimal (nat (DateFromTime tv))) @ '' '' @
        monthNames ! nat (MonthFromTime tv) @ '' '' @
        (if yv \<ge> 0 then '''' else ''-'') @ padStart 4 (decimal (nat \<bar>yv\<bar>)) @ '' '' @
        padStart 2 (decimal (nat (HourFromTime tv))) @ '':'' @
        padStart 2 (decimal (nat (MinFromTime tv))) @ '':'' @
        padStart 2 (decimal (nat (SecFromTime tv))) @ '' GMT'')"

fun index_of :: "'a \<Rightarrow> 'a list \<Rightarrow> nat option" where
  "index_of x [] = None"
| "index_of x (y # ys) = (if x = y then Some 0 else map_option Suc (index_of x ys))"

definition digit_value :: "char \<Rightarrow> nat option" where
  "digit_value c = index_of c ''0123456789''"

fun read_decimal :: "nat \<Rightarrow> string \<Rightarrow> nat option" where
  "read_decimal acc [] = Some acc"
| "read_decimal acc (c # cs) =
     (case digit_value c of None \<Rightarrow> None | Some d \<Rightarrow> read_decimal (10 * acc + d) cs)"

text \<open>
  \<open>Date.parse\<close> must read back what \<open>toUTCString\<close> writes (ECMA-262: for a Date
  \<open>x\<close> whose milliseconds are zero, \<open>Date.parse(x.toUTCString())\<close> is
  \<open>x.valueOf()\<close>); what it makes of any other string is left to the implementation.
  \<open>parseUTCString\<close> reads the fields of a 29-character string with a four-digit year,
  rebuilds the time value with \<open>MakeDay\<close>, \<open>MakeTime\<close> and \<open>MakeDate\<close> and keeps
  it only when \<open>toUTCString\<close> renders it as the very string read.  Every other string is
  handed to \<open>fallback\<close>, the implementation's own parser, a parameter of the model.
\<close>

definition parseUTCString :: "string \<Rightarrow> int option" where
  "parseUTCString s =
     (if length s \<noteq> 29 then None
      else
        case (read_decimal 0 (take 2 (drop 5 s)),
              index_of (take 3 (drop 8 s)) monthNames,
              read_decimal 0 (take 4 (drop 12 s)),
              read_decimal 0 (take 2 (drop 17 s)),
              read_decimal 0 (take 2 (drop 20 s)),
              read_decimal 0 (take 2 (drop 23 s))) of
          (Some date, Some month, Some year, Some h, Some m, Some sec) \<Rightarrow>
            (let tv = MakeDate (MakeDay (int year) (int month) (int date))
                               (MakeTime (int h) (int m) (int sec) 0)
             in if toUTCString tv = s then Some tv else None)
        | _ \<Rightarrow> None)"

definition Date_parse :: "(string \<Rightarrow> int option) \<Rightarrow> string \<Rightarrow> int option" where
  "Date_parse fallback s =
     (case parseUTCString s of Some tv \<Rightarrow> Some tv | None \<Rightarrow> fallback s)"

section \<open>The platform: player data, statistics, log\<close>

text \<open>
  The script runs inside the platform, which gives it the global \<open>currentPlayerId\<close>
  (undefined in some webhook handlers, hence an option), the \<open>server\<close> object and the
  \<open>log\<close> object.  A \<open>server\<close> call sends one request; the platform either answers it
  or refuses it, and a refused call throws (the handlers of the script that care catch
  it and read \<open>apiErrorInfo\<close>).  Which requests are refused is the platform's business:
  the field \<open>refused\<close> is any predicate on requests.  Every request sent is recorded in
  \<open>requests\<close>, answered or not.
\<close>

type_synonym playfab_id = "string option"

datatype api_call =
    Call_GetUserInternalData playfab_id "string list"
  | Call_GetPlayerStatistics playfab_id
  | Call_UpdatePlayerStatistics playfab_id "(string \<times> int) list"
  | Call_UpdateUserInternalData playfab_id "(string \<times> string) list"

datatype error = ApiError api_call

text \<open>
  A log line is kept as the numbers its message is built from: \<open>lastMoveTime\<close>
  (possibly \<open>NaN\<close>) and \<open>now\<close>; the elapsed seconds in the text are computed from them.
\<close>

datatype log_entry =
    Log_debug "int option" int
  | Log_error "int option" int

record platform =
  UserInternalData :: "playfab_id \<Rightarrow> string \<rightharpoonup> string"
  PlayerStatistics :: "playfab_id \<Rightarrow> (string \<times> int) list"
  refused :: "api_call \<Rightarrow> bool"
  requests :: "api_call list"
  log :: "log_entry list"

definition send :: "api_call \<Rightarrow> platform \<Rightarrow> platform" where
  "send c s = s\<lparr>requests := requests s @ [c]\<rparr>"

definition server_GetUserInternalData ::
  "playfab_id \<Rightarrow> string list \<Rightarrow> platform \<Rightarrow> (error + (string \<rightharpoonup> string)) \<times> platform" where
  "server_GetUserInternalData pid keys s =
     (let c = Call_GetUserInternalData pid keys in
      if refused s c then (Inl (ApiError c), send c s)
      else (Inr (\<lambda>k. if k \<in> set keys then UserInternalData s pid k else None), send c s))"

definition server_GetPlayerStatistics ::
  "playfab_id \<Rightarrow> platform \<Rightarrow> (error + (string \<times> int) list) \<times> platform" where
  "server_GetPlayerStatistics pid s =
     (let c = Call_GetPlayerStatistics pid in
      if refused s c then (Inl (ApiError c), send c s)
      else (Inr (PlayerStatistics s pid), send c s))"

text \<open>
  An update of a statistic replaces the value stored under that name, or adds the
  statistic when the player has none of that name.  Statistic values are integers.
\<close>

fun set_statistic :: "string \<Rightarrow> int \<Rightarrow> (string \<times> int) list \<Rightarrow> (string \<times> int) list" where
  "set_statistic name v [] = [(name, v)]"
| "set_statistic name v (st # rest) =
     (if fst st = name then (name, v) # rest else st # set_statistic name v rest)"

definition server_UpdatePlayerStatistics ::
  "playfab_id \<Rightarrow> (string \<times> int) list \<Rightarrow> platform \<Rightarrow> (error + unit) \<times> platform" where
  "server_UpdatePlayerStatistics pid stats s =
     (let c = Call_UpdatePlayerStatistics pid stats in
      if refused s c then (Inl (ApiError c), send c s)
      else (Inr (),
            send c (s\<lparr>PlayerStatistics := (PlayerStatistics s)
                      (pid := foldl (\<lambda>l (name, v). set_statistic name v l)
                                    (PlayerStatistics s pid) stats)\<rparr>)))"

definition server_UpdateUserInternalData ::
  "playfab_id \<Rightarrow> (string \<times> string) list \<Rightarrow> platform \<Rightarrow> (error + unit) \<times> platform" where
  "server_UpdateUserInternalData pid data s =
     (let c = Call_UpdateUserInternalData pid data in
      if refused s c then (Inl (ApiError c), send c s)
      else (Inr (),
            send c (s\<lparr>UserInternalData := (UserInternalData s)
                      (pid := foldl (\<lambda>m (k, v). m(k \<mapsto> v))
                                    (UserInternalData s pid) data)\<rparr>)))"

definition log_debug :: "int option \<Rightarrow> int \<Rightarrow> platform \<Rightarrow> platform" where
  "log_debug lastMoveTime now s = s\<lparr>log := log s @ [Log_debug lastMoveTime now]\<rparr>"

definition log_error :: "int option \<Rightarrow> int \<Rightarrow> platform \<Rightarrow> platform" where
  "log_error lastMoveTime now s = s\<lparr>log := log s @ [Log_error lastMoveTime now]\<rparr>"

section \<open>The move validator\<close>

text \<open>
  What a call of \<open>processPlayerMove\<close> finds around it: the clock reading
  \<open>Date.now()\<close>, the global \<open>currentPlayerId\<close>, the built-in \<open>JSON.stringify\<close>
  on the kind of payload the handler was given, and the implementation's parser for date
  strings that \<open>toUTCString\<close> does not write.
\<close>

record 'm env =
  Date_now :: int
  currentPlayerId :: playfab_id
  JSON_stringify :: "'m \<Rightarrow> string"
  Date_parse_other :: "string \<Rightarrow> int option"

text \<open>
  \<open>(now - lastMoveTime) / 1000\<close>: \<open>NaN\<close> when \<open>lastMoveTime\<close> is, and a
  comparison with \<open>NaN\<close> is false.  The quotient is taken exactly: \<open>now\<close> and
  \<open>lastMoveTime\<close> are whole milliseconds, and the double nearest to \<open>x / 1000\<close>
  is below 15 exactly when \<open>x\<close> is below 15000.
\<close>

definition timeSinceLastMoveInSeconds :: "int \<Rightarrow> int option \<Rightarrow> real option" where
  "timeSinceLastMoveInSeconds now lastMoveTime =
     map_option (\<lambda>l. real_of_int (now - l) / 1000) lastMoveTime"

definition js_less :: "real option \<Rightarrow> real \<Rightarrow> bool" where
  "js_less x y = (case x of None \<Rightarrow> False | Some v \<Rightarrow> v < y)"

text \<open>The loop over the statistics: the last statistic whose name is the empty string wins.\<close>

fun scan_statistics :: "(string \<times> int) list \<Rightarrow> int \<Rightarrow> int" where
  "scan_statistics [] movesMade = movesMade"
| "scan_statistics (st # rest) movesMade =
     scan_statistics rest (if fst st = '''' then snd st else movesMade)"

definition processPlayerMove :: "'m env \<Rightarrow> 'm \<Rightarrow> platform \<Rightarrow> (error + bool) \<times> platform" where
  "processPlayerMove e playerMove s0 =
     (let now = Date_now e;
          playerMoveCooldownInSeconds = 15 in
      case server_GetUserInternalData (currentPlayerId e) [''last_move_timestamp''] s0 of
        (Inl ex, s1) \<Rightarrow> (Inl ex, s1)
      | (Inr playerData, s1) \<Rightarrow>
          let lastMoveTimestampSetting = playerData ''last_move_timestamp'';
              (tooSoon, s2) =
                (case lastMoveTimestampSetting of
                   None \<Rightarrow> (False, s1)
                 | Some v \<Rightarrow>
                     let lastMoveTime = Date_parse (Date_parse_other e) v;
                         s = log_debug lastMoveTime now s1 in
                     if js_less (timeSinceLastMoveInSeconds now lastMoveTime)
                                playerMoveCooldownInSeconds
                     then (True, log_error lastMoveTime now s)
                     else (False, s))
          in
          if tooSoon then (Inr False, s2)
          else
            case server_GetPlayerStatistics (currentPlayerId e) s2 of
              (Inl ex, s3) \<Rightarrow> (Inl ex, s3)
            | (Inr playerStats, s3) \<Rightarrow>
                let movesMade = scan_statistics playerStats 0 + 1;
                    request = [(''movesMade'', movesMade)] in
                case server_UpdatePlayerStatistics (currentPlayerId e) request s3 of
                  (Inl ex, s4) \<Rightarrow> (Inl ex, s4)
                | (Inr _, s4) \<Rightarrow>
                    case server_UpdateUserInternalData (currentPlayerId e)
                           [(''last_move_timestamp'', toUTCString now),
                            (''last_move'', JSON_stringify e playerMove)] s4 of
                      (Inl ex, s5) \<Rightarrow> (Inl ex, s5)
                    | (Inr _, s5) \<Rightarrow> (Inr True, s5))"

section \<open>Example inputs\<close>

text \<open>
  A player \<open>P\<close>, a payload that is a number (on which \<open>JSON.stringify\<close> writes the
  decimal digits), an implementation whose \<open>Date.parse\<close> gives \<open>NaN\<close> for every
  string \<open>toUTCString\<close> does not write, and platforms that answer every request or
  refuse the update of the player's data.
\<close>

definition player :: playfab_id where
  "player = Some ''P''"

definition parses_nothing_else :: "string \<Rightarrow> int option" where
  "parses_nothing_else s = None"

definition example_env :: "playfab_id \<Rightarrow> int \<Rightarrow> nat env" where
  "example_env pid now =
     \<lparr>Date_now = now, currentPlayerId = pid, JSON_stringify = decimal,
      Date_parse_other = parses_nothing_else\<rparr>"

definition answers_all :: "api_call \<Rightarrow> bool" where
  "answers_all c = False"

definition refuses_data_update :: "api_call \<Rightarrow> bool" where
  "refuses_data_update c =
     (case c of Call_UpdateUserInternalData pid data \<Rightarrow> True | _ \<Rightarrow> False)"

definition example_platform ::
  "string option \<Rightarrow> (string \<times> int) list \<Rightarrow> (api_call \<Rightarrow> bool) \<Rightarrow> platform" where
  "example_platform timestamp stats r =
     \<lparr>UserInternalData =
        (\<lambda>pid k. if pid = player \<and> k = ''last_move_timestamp'' then timestamp else None),
      PlayerStatistics = (\<lambda>pid. if pid = player then stats else []),
      refused = r, requests = [], log = []\<rparr>"

section \<open>Facts about the calendar arithmetic and the UTC string\<close>

lemma div_succ:
  fixes x k :: int
  assumes "0 < k"
  shows "(x + 1) div k = x div k + (if k dvd x + 1 then 1 else 0)"
proof (cases "x mod k + 1 = k")
  case True
  have "x + 1 = k * (x div k) + (x mod k + 1)" by simp
  also have "\<dots> = k * (x div k) + k" using True by simp
  also have "\<dots> = k * (x div k + 1) + 0" by (simp add: algebra_simps)
  finally have eq: "x + 1 = k * (x div k + 1) + 0" .
  have "(x + 1) div k = x div k + 1"
    by (rule int_div_pos_eq [OF eq]) (use assms in simp_all)
  moreover have "k dvd x + 1"
    using eq by (metis add.right_neutral dvd_triv_left)
  ultimately show ?thesis by simp
next
  case False
  have lt: "x mod k + 1 < k"
    using False assms pos_mod_bound [of k x] by linarith
  have ge: "0 \<le> x mod k + 1"
    using assms pos_mod_sign [of k x] by linarith
  have eq: "x + 1 = k * (x div k) + (x mod k + 1)" by simp
  have "(x + 1) div k = x div k"
    using eq ge lt by (rule int_div_pos_eq)
  moreover have "(x + 1) mod k = x mod k + 1"
    using eq ge lt by (rule int_mod_pos_eq)
  then have "\<not> k dvd x + 1"
    using pos_mod_sign [OF assms, of x] by (simp add: dvd_eq_mod_eq_0)
  ultimately show ?thesis by simp
qed

lemma dvd_shift: "(k::int) dvd c \<Longrightarrow> (k dvd y - c) = (y mod k = 0)"
  by (simp add: dvd_diff_left_iff dvd_eq_mod_eq_0 [symmetric]) 

lemma DayFromYear_Suc: "DayFromYear (y + 1) = DayFromYear y + DaysInYear y"
proof -
  have a: "(y - 1968) div 4 = (y - 1969) div 4 + (if y mod 4 = 0 then 1 else 0)"
    using div_succ [of 4 "y - 1969"] dvd_shift [of 4 1968 y] by simp
  have b: "(y - 1900) div 100 = (y - 1901) div 100 + (if y mod 100 = 0 then 1 else 0)"
    using div_succ [of 100 "y - 1901"] dvd_shift [of 100 1900 y] by simp
  have c: "(y - 1600) div 400 = (y - 1601) div 400 + (if y mod 400 = 0 then 1 else 0)"
    using div_succ [of 400 "y - 1601"] dvd_shift [of 400 1600 y] by simp
  have m1: "y mod 100 = 0 \<Longrightarrow> y mod 4 = 0"
    using mod_mod_cancel [of 4 100 y] by simp
  have m2: "y mod 400 = 0 \<Longrightarrow> y mod 100 = 0"
    using mod_mod_cancel [of 100 400 y] by simp
  have s: "DayFromYear (y + 1) = 365 * (y - 1969) + (y - 1968) div 4 - (y - 1900) div 100 + (y - 1600) div 400"
    by (simp add: DayFromYear_def)
  show ?thesis
    unfolding s a b c using m1 m2 by (simp add: DayFromYear_def DaysInYear_def)
qed

lemma DaysInYear_ge: "365 \<le> DaysInYear y"
  by (simp add: DaysInYear_def)

lemma DayFromYear_mono: "y \<le> y' \<Longrightarrow> DayFromYear y \<le> DayFromYear y'"
proof (induction y' rule: int_ge_induct)
  case base
  show ?case by simp
next
  case (step i)
  then show ?case using DayFromYear_Suc [of i] DaysInYear_ge [of i] by linarith
qed

lemma DayFromYear_lower: "1970 \<le> y \<Longrightarrow> 365 * (y - 1970) \<le> DayFromYear y"
proof (induction y rule: int_ge_induct)
  case base
  show ?case by (simp add: DayFromYear_def)
next
  case (step i)
  then show ?case using DayFromYear_Suc [of i] DaysInYear_ge [of i] by simp
qed

lemma year_down_spec:
  "d < DayFromYear (y + 1) \<Longrightarrow>
   DayFromYear (year_down d y) \<le> d \<and> d < DayFromYear (year_down d y + 1)"
proof (induction d y rule: year_down.induct)
  case (1 d y)
  show ?case
  proof (cases "DayFromYear y \<le> d")
    case True
    then show ?thesis using "1.prems" by (simp add: year_down.simps [of d y])
  next
    case False
    then have "d < DayFromYear (y - 1 + 1)" by simp
    with "1.IH" False show ?thesis by (simp add: year_down.simps [of d y])
  qed
qed

lemma start_year_above: "d < DayFromYear ((if d < 0 then 1969 else 1970 + d div 365) + 1)"
proof (cases "d < 0")
  case True
  then show ?thesis by (simp add: DayFromYear_def)
next
  case False
  then have q: "0 \<le> d div 365" by (simp add: pos_imp_zdiv_nonneg_iff)
  have "d < 365 * (d div 365 + 1)"
    using pos_mod_bound [of 365 d] mult_div_mod_eq [of 365 d] by simp
  moreover have "365 * (1970 + d div 365 + 1 - 1970) \<le> DayFromYear (1970 + d div 365 + 1)"
    using q by (intro DayFromYear_lower) linarith
  ultimately show ?thesis using False by simp
qed

lemma YearFromDay_spec:
  "DayFromYear (YearFromDay d) \<le> d \<and> d < DayFromYear (YearFromDay d + 1)"
  unfolding YearFromDay_def by (rule year_down_spec [OF start_year_above])

lemma YearFromDay_range:
  assumes "- 719528 \<le> d" "d < 2932897"
  shows "0 \<le> YearFromDay d \<and> YearFromDay d \<le> 9999"
proof -
  have s: "DayFromYear (YearFromDay d) \<le> d" "d < DayFromYear (YearFromDay d + 1)"
    using YearFromDay_spec [of d] by simp_all
  have "\<not> YearFromDay d + 1 \<le> 0"
  proof
    assume "YearFromDay d + 1 \<le> 0"
    then have "DayFromYear (YearFromDay d + 1) \<le> DayFromYear 0" by (rule DayFromYear_mono)
    then show False using s assms by (simp add: DayFromYear_def)
  qed
  moreover have "\<not> 10000 \<le> YearFromDay d"
  proof
    assume "10000 \<le> YearFromDay d"
    then have "DayFromYear 10000 \<le> DayFromYear (YearFromDay d)" by (rule DayFromYear_mono)
    then show False using s assms by (simp add: DayFromYear_def)
  qed
  ultimately show ?thesis by linarith
qed

lemma YearFromTime_spec:
  "DayFromYear (YearFromTime t) \<le> Day t \<and>
   Day t < DayFromYear (YearFromTime t) + DaysInYear (YearFromTime t)"
  using YearFromDay_spec [of "Day t"] DayFromYear_Suc [of "YearFromDay (Day t)"]
  by (simp add: YearFromTime_def)

lemma DayWithinYear_range:
  "0 \<le> DayWithinYear t \<and> DayWithinYear t < 365 + InLeapYear t"
  using YearFromTime_spec [of t]
  by (simp add: DayWithinYear_def InLeapYear_def DaysInYear_def split: if_splits)

lemma InLeapYear_cases: "InLeapYear t = 0 \<or> InLeapYear t = 1"
  by (simp add: InLeapYear_def)

lemma MonthFromTime_range: "0 \<le> MonthFromTime t \<and> MonthFromTime t \<le> 11"
  by (simp add: MonthFromTime_def Let_def)

lemma DateFromTime_range: "1 \<le> DateFromTime t \<and> DateFromTime t \<le> 31"
  using DayWithinYear_range [of t] InLeapYear_cases [of t]
  by (auto simp: DateFromTime_def MonthFromTime_def Let_def)

lemma MakeDay_inverse:
  "MakeDay (YearFromTime t) (MonthFromTime t) (DateFromTime t) = Day t"
proof -
  have D: "Day t = DayFromYear (YearFromTime t) + DayWithinYear t"
    by (simp add: DayWithinYear_def)
  have m: "MonthFromTime t div 12 = 0" "MonthFromTime t mod 12 = MonthFromTime t"
    using MonthFromTime_range [of t] by simp_all
  consider (leap) "DaysInYear (YearFromTime t) = 366" "InLeapYear t = 1"
    | (common) "DaysInYear (YearFromTime t) \<noteq> 366" "InLeapYear t = 0"
    by (auto simp: InLeapYear_def)
  then show ?thesis
  proof cases
    case leap
    then show ?thesis
      using DayWithinYear_range [of t]
      by (simp add: MakeDay_def Let_def m D DateFromTime_def MonthFromTime_def)
  next
    case common
    then show ?thesis
      using DayWithinYear_range [of t]
      by (simp add: MakeDay_def Let_def m D DateFromTime_def MonthFromTime_def)
  qed
qed

lemma seconds_split:
  fixes s :: int
  shows "86400 * (s div 86400) + 3600 * (s div 3600 mod 24) + 60 * (s div 60 mod 60) + s mod 60 = s"
proof -
  have a: "s div 3600 = s div 60 div 60"
    using zdiv_zmult2_eq [of 60 s 60] by simp
  have b: "s div 86400 = s div 3600 div 24"
    using zdiv_zmult2_eq [of 24 s 3600] by simp
  have "s = 60 * (s div 60) + s mod 60" by simp
  moreover have "s div 60 = 60 * (s div 60 div 60) + s div 60 mod 60" by simp
  moreover have "s div 3600 = 24 * (s div 3600 div 24) + s div 3600 mod 24" by simp
  ultimately show ?thesis unfolding b a by linarith
qed

lemma MakeDate_inverse:
  "MakeDate (Day t) (MakeTime (HourFromTime t) (MinFromTime t) (SecFromTime t) 0) = t - t mod 1000"
proof -
  have h: "t div 3600000 = t div 1000 div 3600"
    using zdiv_zmult2_eq [of 3600 t 1000] by simp
  have m: "t div 60000 = t div 1000 div 60"
    using zdiv_zmult2_eq [of 60 t 1000] by simp
  have d: "t div 86400000 = t div 1000 div 86400"
    using zdiv_zmult2_eq [of 86400 t 1000] by simp
  have "t - t mod 1000 = 1000 * (t div 1000)"
    using mult_div_mod_eq [of 1000 t] by linarith
  then show ?thesis
    unfolding MakeDate_def MakeTime_def Day_def msPerDay_def HourFromTime_def MinFromTime_def
      SecFromTime_def h m d
    using seconds_split [of "t div 1000"] by linarith
qed

lemma Day_truncate: "Day (t - t mod 1000) = Day t"
proof -
  have d: "\<And>x::int. x div 86400000 = x div 1000 div 86400"
    using zdiv_zmult2_eq [of 86400 _ 1000] by simp
  have "t - t mod 1000 = 1000 * (t div 1000)"
    using mult_div_mod_eq [of 1000 t] by linarith
  then show ?thesis by (simp add: Day_def msPerDay_def d)
qed

lemma digit_value_digit_char: "digit_value (digit_char n) = Some (n mod 10)"
proof -
  have "n mod 10 < 10" by simp
  then have "n mod 10 \<in> {0, 1, 2, 3, 4, 5, 6, 7, 8, 9}" by (simp, arith)
  then show ?thesis
    by (auto simp: digit_char_def digit_value_def)
qed

lemma replicate_small:
  "replicate 1 x = [x]" "replicate 2 x = [x, x]" "replicate 3 x = [x, x, x]"
  by (simp_all add: numeral_2_eq_2 numeral_3_eq_3)

lemma padStart_2: "n < 100 \<Longrightarrow> padStart 2 (decimal n) = [digit_char (n div 10), digit_char n]"
proof (cases "n < 10")
  case True
  then show ?thesis
    by (simp add: decimal.simps [of n] padStart_def digit_char_def replicate_small)
next
  case False
  assume "n < 100"
  then have "n div 10 < 10" by simp
  then show ?thesis using False
    by (simp add: decimal.simps [of n] decimal.simps [of "n div 10"] padStart_def replicate_small)
qed

lemma padStart_4:
  assumes "n < 10000"
  shows "padStart 4 (decimal n) =
         [digit_char (n div 1000), digit_char (n div 100), digit_char (n div 10), digit_char n]"
proof -
  have d: "n div 100 = n div 10 div 10" "n div 1000 = n div 10 div 10 div 10"
    by (simp_all add: div_mult2_eq)
  consider "n < 10" | "10 \<le> n" "n < 100" | "100 \<le> n" "n < 1000" | "1000 \<le> n"
    by linarith
  then show ?thesis
  proof cases
    case 1
    then show ?thesis
      by (simp add: decimal.simps [of n] padStart_def digit_char_def replicate_small)
  next
    case 2
    then have "n div 10 < 10" "n div 100 = 0" "n div 1000 = 0" by simp_all
    then show ?thesis using 2
      by (simp add: decimal.simps [of n] decimal.simps [of "n div 10"] padStart_def digit_char_def replicate_small)
  next
    case 3
    then have "\<not> n div 10 < 10" "n div 10 div 10 < 10" "n div 1000 = 0"
      by (simp_all add: d(1) [symmetric])
    then show ?thesis using 3
      by (simp add: decimal.simps [of n] decimal.simps [of "n div 10"]
          decimal.simps [of "n div 10 div 10"] padStart_def digit_char_def replicate_small d(1))
  next
    case 4
    then have "\<not> n < 10" "\<not> n div 10 < 10" "\<not> n div 10 div 10 < 10" "n div 10 div 10 div 10 < 10"
      using assms by (simp_all add: d [symmetric])
    then show ?thesis
      by (simp add: decimal.simps [of n] decimal.simps [of "n div 10"]
          decimal.simps [of "n div 10 div 10"] decimal.simps [of "n div 10 div 10 div 10"]
          padStart_def replicate_small d)
  qed
qed

lemma read_decimal_2:
  "n < 100 \<Longrightarrow> read_decimal 0 [digit_char (n div 10), digit_char n] = Some n"
  by (simp add: digit_value_digit_char)

lemma digits_sum:
  fixes n :: nat
  shows "n = 10 * a + r0 \<Longrightarrow> a = 10 * b + r1 \<Longrightarrow> b = 10 * c + r2 \<Longrightarrow>
         10 * (10 * (10 * c + r2) + r1) + r0 = n"
  by simp

lemma read_decimal_4:
  assumes "n < 10000"
  shows "read_decimal 0 [digit_char (n div 1000), digit_char (n div 100),
                         digit_char (n div 10), digit_char n] = Some n"
proof -
  have d: "n div 100 = n div 10 div 10" "n div 1000 = n div 10 div 10 div 10"
    by (simp_all add: div_mult2_eq)
  have c: "n div 10 div 10 div 10 mod 10 = n div 10 div 10 div 10"
    using assms by (simp add: d(2) [symmetric])
  have "n = 10 * (n div 10) + n mod 10" by simp
  moreover have "n div 10 = 10 * (n div 10 div 10) + n div 10 mod 10" by simp
  moreover have "n div 10 div 10 = 10 * (n div 10 div 10 div 10) + n div 10 div 10 mod 10" by simp
  ultimately have "10 * (10 * (10 * (n div 10 div 10 div 10) + n div 10 div 10 mod 10)
                     + n div 10 mod 10) + n mod 10 = n"
    by (rule digits_sum)
  then show ?thesis
    by (simp add: digit_value_digit_char d c)
qed

lemma index_of_monthNames: "m < 12 \<Longrightarrow> index_of (monthNames ! m) monthNames = Some m"
proof -
  assume "m < 12"
  then have "m \<in> {0, 1, 2, 3, 4, 5, 6, 7, 8, 9, 10, 11}" by (simp, arith)
  then show ?thesis by (auto simp: monthNames_def)
qed

lemma length_monthNames: "m < 12 \<Longrightarrow> length (monthNames ! m) = 3"
proof -
  assume "m < 12"
  then have "m \<in> {0, 1, 2, 3, 4, 5, 6, 7, 8, 9, 10, 11}" by (simp, arith)
  then show ?thesis by (auto simp: monthNames_def)
qed

lemma length_dayNames: "w < 7 \<Longrightarrow> length (dayNames ! w) = 3"
proof -
  assume "w < 7"
  then have "w \<in> {0, 1, 2, 3, 4, 5, 6}" by (simp, arith)
  then show ?thesis by (auto simp: dayNames_def)
qed

lemma length_3: "length xs = 3 \<Longrightarrow> \<exists>a b c. xs = [a, b, c]"
  by (cases xs; cases "tl xs"; cases "tl (tl xs)") auto

lemma utc_layout:
  assumes "length dn = 3" "length mn = 3"
    and s_def: "s = dn @ '', '' @ [d1, d2] @ '' '' @ mn @ '' '' @ [y1, y2, y3, y4] @ '' '' @
                [h1, h2] @ '':'' @ [m1, m2] @ '':'' @ [s1, s2] @ '' GMT''"
  shows "length s = 29" "take 2 (drop 5 s) = [d1, d2]" "take 3 (drop 8 s) = mn"
    "take 4 (drop 12 s) = [y1, y2, y3, y4]" "take 2 (drop 17 s) = [h1, h2]"
    "take 2 (drop 20 s) = [m1, m2]" "take 2 (drop 23 s) = [s1, s2]"
proof -
  obtain a b c where dn: "dn = [a, b, c]" using length_3 [OF assms(1)] by blast
  obtain a' b' c' where mn: "mn = [a', b', c']" using length_3 [OF assms(2)] by blast
  show "length s = 29" "take 2 (drop 5 s) = [d1, d2]" "take 3 (drop 8 s) = mn"
    "take 4 (drop 12 s) = [y1, y2, y3, y4]" "take 2 (drop 17 s) = [h1, h2]"
    "take 2 (drop 20 s) = [m1, m2]" "take 2 (drop 23 s) = [s1, s2]"
    by (simp_all add: s_def dn mn)
qed

lemma Day_range:
  assumes "- 62167219200000 \<le> t" "t < 253402300800000"
  shows "- 719528 \<le> Day t \<and> Day t < 2932897"
  using assms unfolding Day_def msPerDay_def by arith

lemma YearFromTime_range:
  assumes "- 62167219200000 \<le> t" "t < 253402300800000"
  shows "0 \<le> YearFromTime t \<and> YearFromTime t \<le> 9999"
  using Day_range [OF assms] YearFromDay_range [of "Day t"] by (simp add: YearFromTime_def)

lemma time_fields_range:
  "0 \<le> HourFromTime t \<and> HourFromTime t < 24 \<and> 0 \<le> MinFromTime t \<and> MinFromTime t < 60 \<and>
   0 \<le> SecFromTime t \<and> SecFromTime t < 60 \<and> 0 \<le> WeekDay t \<and> WeekDay t < 7"
  by (simp add: HourFromTime_def MinFromTime_def SecFromTime_def WeekDay_def)

lemma toUTCString_truncate:
  assumes "- 62167219200000 \<le> t" "t < 253402300800000"
  shows "toUTCString (t - t mod 1000) = toUTCString t"
proof -
  let ?t = "t - t mod 1000"
  have k: "?t = 1000 * (t div 1000)"
    using mult_div_mod_eq [of 1000 t] by linarith
  have q: "?t div 1000 = t div 1000" unfolding k by simp
  have h: "\<And>x::int. x div 3600000 = x div 1000 div 3600"
    using zdiv_zmult2_eq [of 3600 _ 1000] by simp
  have m: "\<And>x::int. x div 60000 = x div 1000 div 60"
    using zdiv_zmult2_eq [of 60 _ 1000] by simp
  have y: "YearFromTime ?t = YearFromTime t"
    by (simp only: YearFromTime_def Day_truncate)
  have l: "InLeapYear ?t = InLeapYear t"
    by (simp only: InLeapYear_def y)
  have w: "DayWithinYear ?t = DayWithinYear t"
    by (simp only: DayWithinYear_def y Day_truncate)
  have mo: "MonthFromTime ?t = MonthFromTime t"
    by (simp only: MonthFromTime_def l w)
  have da: "DateFromTime ?t = DateFromTime t"
    by (simp only: DateFromTime_def l w mo)
  have wd: "WeekDay ?t = WeekDay t"
    by (simp only: WeekDay_def Day_truncate)
  have ho: "HourFromTime ?t = HourFromTime t"
    by (simp only: HourFromTime_def h q)
  have mi: "MinFromTime ?t = MinFromTime t"
    by (simp only: MinFromTime_def m q)
  have se: "SecFromTime ?t = SecFromTime t"
    by (simp only: SecFromTime_def q)
  have "0 \<le> t mod 1000" "t mod 1000 < 1000" by simp_all
  then have r: "\<not> \<bar>?t\<bar> > 8640000000000000" "\<not> \<bar>t\<bar> > 8640000000000000"
    using assms by linarith+
  show ?thesis
    unfolding toUTCString_def y mo da wd ho mi se using r by (simp only: if_False)
qed

lemma parseUTCString_toUTCString:
  assumes "- 62167219200000 \<le> t" "t < 253402300800000"
  shows "parseUTCString (toUTCString t) = Some (t - t mod 1000)"
proof -
  define D where "D = nat (DateFromTime t)"
  define M where "M = nat (MonthFromTime t)"
  define Y where "Y = nat (YearFromTime t)"
  define h where "h = nat (HourFromTime t)"
  define m where "m = nat (MinFromTime t)"
  define s where "s = nat (SecFromTime t)"
  define w where "w = nat (WeekDay t)"
  have iD: "int D = DateFromTime t" and D: "D < 100"
    using DateFromTime_range [of t] by (auto simp: D_def)
  have iM: "int M = MonthFromTime t" and M: "M < 12"
    using MonthFromTime_range [of t] by (auto simp: M_def)
  have iY: "int Y = YearFromTime t" and Y: "Y < 10000" and Y0: "0 \<le> YearFromTime t"
    and aY: "nat \<bar>YearFromTime t\<bar> = Y"
    using YearFromTime_range [OF assms] by (auto simp: Y_def)
  have ih: "int h = HourFromTime t" and h: "h < 100"
    using time_fields_range [of t] by (auto simp: h_def)
  have im: "int m = MinFromTime t" and m: "m < 100"
    using time_fields_range [of t] by (auto simp: m_def)
  have isec: "int s = SecFromTime t" and s: "s < 100"
    using time_fields_range [of t] by (auto simp: s_def)
  have w: "w < 7"
    using time_fields_range [of t] by (auto simp: w_def)
  have r: "\<not> \<bar>t\<bar> > 8640000000000000" using assms by linarith
  have shape: "toUTCString t =
      dayNames ! w @ '', '' @ [digit_char (D div 10), digit_char D] @ '' '' @
      monthNames ! M @ '' '' @
      [digit_char (Y div 1000), digit_char (Y div 100), digit_char (Y div 10), digit_char Y] @
      '' '' @ [digit_char (h div 10), digit_char h] @ '':'' @
      [digit_char (m div 10), digit_char m] @ '':'' @
      [digit_char (s div 10), digit_char s] @ '' GMT''"
    unfolding toUTCString_def Let_def
    using r Y0
    by (simp add: aY Y_def [symmetric] D_def [symmetric] M_def [symmetric] h_def [symmetric] m_def [symmetric]
        s_def [symmetric] w_def [symmetric] padStart_2 [OF D] padStart_2 [OF h]
        padStart_2 [OF m] padStart_2 [OF s] padStart_4 [OF Y])
  note L = utc_layout [OF length_dayNames [OF w] length_monthNames [OF M] shape]
  have tv: "MakeDate (MakeDay (int Y) (int M) (int D)) (MakeTime (int h) (int m) (int s) 0)
            = t - t mod 1000"
    unfolding iY iM iD ih im isec MakeDay_inverse by (rule MakeDate_inverse)
  show ?thesis
    unfolding parseUTCString_def L
    by (simp add: read_decimal_2 [OF D] read_decimal_2 [OF h] read_decimal_2 [OF m]
        read_decimal_2 [OF s] read_decimal_4 [OF Y] index_of_monthNames [OF M] tv
        toUTCString_truncate [OF assms] del: read_decimal.simps)
qed

lemma Date_parse_toUTCString:
  assumes "- 62167219200000 \<le> t" "t < 253402300800000"
  shows "Date_parse fallback (toUTCString t) = Some (t - t mod 1000)"
  by (simp add: Date_parse_def parseUTCString_toUTCString [OF assms])

section \<open>Facts about one run of the validator\<close>

lemmas ppm_unfold = processPlayerMove_def server_GetUserInternalData_def
  server_GetPlayerStatistics_def server_UpdatePlayerStatistics_def
  server_UpdateUserInternalData_def send_def log_debug_def log_error_def Let_def

lemma js_less_ms: "js_less (timeSinceLastMoveInSeconds now (Some t)) 15 = (now - t < 15000)"
  by (simp add: js_less_def timeSinceLastMoveInSeconds_def) arith

lemma js_less_NaN: "js_less (timeSinceLastMoveInSeconds now None) c = False"
  by (simp add: js_less_def timeSinceLastMoveInSeconds_def)

lemma run_normal_form:
  fixes e :: "'m env" and m :: 'm and s :: platform
  defines "pid \<equiv> currentPlayerId e"
    and "now \<equiv> Date_now e"
  defines "c1 \<equiv> Call_GetUserInternalData pid [''last_move_timestamp'']"
    and "c2 \<equiv> Call_GetPlayerStatistics pid"
    and "c3 \<equiv> Call_UpdatePlayerStatistics pid
                 [(''movesMade'', scan_statistics (PlayerStatistics s pid) 0 + 1)]"
    and "c4 \<equiv> Call_UpdateUserInternalData pid
                 [(''last_move_timestamp'', toUTCString now),
                  (''last_move'', JSON_stringify e m)]"
    and "prior \<equiv> UserInternalData s pid ''last_move_timestamp''"
  defines "soon \<equiv> (case prior of None \<Rightarrow> False
                    | Some v \<Rightarrow> js_less (timeSinceLastMoveInSeconds now
                                 (Date_parse (Date_parse_other e) v)) 15)"
    and "lg \<equiv> (case prior of None \<Rightarrow> log s
                  | Some v \<Rightarrow> log s @ [Log_debug (Date_parse (Date_parse_other e) v) now])"
    and "lge \<equiv> (case prior of None \<Rightarrow> log s
                  | Some v \<Rightarrow> log s @ [Log_debug (Date_parse (Date_parse_other e) v) now,
                                        Log_error (Date_parse (Date_parse_other e) v) now])"
  shows "processPlayerMove e m s =
     (if refused s c1 then (Inl (ApiError c1), s\<lparr>requests := requests s @ [c1]\<rparr>)
      else if soon then (Inr False, s\<lparr>requests := requests s @ [c1], log := lge\<rparr>)
      else if refused s c2
        then (Inl (ApiError c2), s\<lparr>requests := requests s @ [c1, c2], log := lg\<rparr>)
      else if refused s c3
        then (Inl (ApiError c3), s\<lparr>requests := requests s @ [c1, c2, c3], log := lg\<rparr>)
      else if refused s c4
        then (Inl (ApiError c4),
              s\<lparr>PlayerStatistics := (PlayerStatistics s)
                    (pid := set_statistic ''movesMade''
                              (scan_statistics (PlayerStatistics s pid) 0 + 1)
                              (PlayerStatistics s pid)),
                requests := requests s @ [c1, c2, c3, c4], log := lg\<rparr>)
      else (Inr True,
            s\<lparr>UserInternalData := (UserInternalData s)
                  (pid := (UserInternalData s pid)
                            (''last_move_timestamp'' \<mapsto> toUTCString now,
                             ''last_move'' \<mapsto> JSON_stringify e m)),
              PlayerStatistics := (PlayerStatistics s)
                  (pid := set_statistic ''movesMade''
                            (scan_statistics (PlayerStatistics s pid) 0 + 1)
                            (PlayerStatistics s pid)),
              requests := requests s @ [c1, c2, c3, c4], log := lg\<rparr>))"
  unfolding soon_def lg_def lge_def prior_def c1_def c2_def c3_def c4_def pid_def now_def
  by (simp add: ppm_unfold split: option.split)

lemma refused_request_aborts:
  "\<forall>c \<in> set (drop (length (requests s)) (requests (snd (processPlayerMove e m s)))).
     refused s c \<longrightarrow>
       fst (processPlayerMove e m s) = Inl (ApiError c) \<and>
       last (requests (snd (processPlayerMove e m s))) = c"
  unfolding run_normal_form by simp

lemma statistics_refused_state:
  "fst (processPlayerMove e m s) = Inl (ApiError (Call_UpdatePlayerStatistics pid st)) \<Longrightarrow>
     PlayerStatistics (snd (processPlayerMove e m s)) = PlayerStatistics s \<and>
     UserInternalData (snd (processPlayerMove e m s)) = UserInternalData s"
  unfolding run_normal_form by (simp split: if_splits)

lemma data_refused_state:
  "fst (processPlayerMove e m s) = Inl (ApiError (Call_UpdateUserInternalData pid d)) \<Longrightarrow>
     UserInternalData (snd (processPlayerMove e m s)) = UserInternalData s \<and>
     PlayerStatistics (snd (processPlayerMove e m s)) = (PlayerStatistics s)
       (currentPlayerId e := set_statistic ''movesMade''
          (scan_statistics (PlayerStatistics s (currentPlayerId e)) 0 + 1)
          (PlayerStatistics s (currentPlayerId e)))"
  unfolding run_normal_form by (simp split: if_splits)

lemma data_changed_only_on_true:
  "UserInternalData (snd (processPlayerMove e m s)) \<noteq> UserInternalData s \<Longrightarrow>
     fst (processPlayerMove e m s) = Inr True"
  unfolding run_normal_form by (simp split: if_splits)

lemma payload_not_consulted:
  "(fst (processPlayerMove e m1 s) = Inr False) = (fst (processPlayerMove e m2 s) = Inr False) \<and>
   (\<forall>b1 b2. fst (processPlayerMove e m1 s) = Inr b1 \<and>
             fst (processPlayerMove e m2 s) = Inr b2 \<longrightarrow> b1 = b2)"
  unfolding run_normal_form by simp

lemma verdict_determined:
  assumes "\<forall>c. \<not> refused s c" and "\<forall>c. \<not> refused s' c"
    and "Date_now e' = Date_now e" and "Date_parse_other e' = Date_parse_other e"
    and "UserInternalData s' (currentPlayerId e') ''last_move_timestamp''
           = UserInternalData s (currentPlayerId e) ''last_move_timestamp''"
  shows "fst (processPlayerMove e' m2 s') = fst (processPlayerMove e m1 s)"
  using assms unfolding run_normal_form by (simp split: option.split)

section \<open>The claims\<close>

text \<open>
  C1.  The claim: an accepted move persists the player's prior \<open>movesMade\<close> plus one.
  The loop that looks the prior value up compares each statistic's name with the empty
  string, so a statistic named \<open>movesMade\<close> is never found: for a player whose
  \<open>movesMade\<close> is 5, an accepted move persists 1.
\<close>

theorem movesMade_ignores_prior_value:
  "fst (processPlayerMove (example_env player 1793598120999) 7
          (example_platform None [(''movesMade'', 5)] answers_all)) = Inr True \<and>
   PlayerStatistics (snd (processPlayerMove (example_env player 1793598120999) 7
          (example_platform None [(''movesMade'', 5)] answers_all))) player
     = [(''movesMade'', 1)]"
  by (simp add: ppm_unfold example_env_def example_platform_def answers_all_def player_def)

text \<open>
  C2, as stated, fails: when the platform refuses the update of the player's data, the
  call throws, but the statistic written just before stays written while the timestamp
  is not.
\<close>

theorem write_failure_partial_commit:
  "fst (processPlayerMove (example_env player 1793598120999) 7
          (example_platform None [] refuses_data_update))
     = Inl (ApiError (Call_UpdateUserInternalData player
              [(''last_move_timestamp'', toUTCString 1793598120999),
               (''last_move'', decimal 7)])) \<and>
   PlayerStatistics (example_platform None [] refuses_data_update) player = [] \<and>
   PlayerStatistics (snd (processPlayerMove (example_env player 1793598120999) 7
          (example_platform None [] refuses_data_update))) player = [(''movesMade'', 1)] \<and>
   UserInternalData (snd (processPlayerMove (example_env player 1793598120999) 7
          (example_platform None [] refuses_data_update))) player ''last_move_timestamp''
     = None"
  by (simp add: ppm_unfold example_env_def example_platform_def refuses_data_update_def
      player_def)

text \<open>
  C2, amended.  Every request the call sends and the platform refuses ends the call with
  that request's error, so a failed write never ends in \<open>true\<close>.  When the statistics
  update is the one refused, neither the statistics nor the player's data have changed.
  When the update of the player's data is the one refused, the player's data have not
  changed, but the statistics update made before it stays committed.  The player's data
  change only in a call that returns \<open>true\<close>, so the timestamp is never committed
  without the statistic.
\<close>

theorem write_failure_aborts:
  assumes "processPlayerMove e m s = (r, s')"
  shows "(\<forall>c \<in> set (drop (length (requests s)) (requests s')).
            refused s c \<longrightarrow> r = Inl (ApiError c) \<and> last (requests s') = c) \<and>
         (\<forall>pid st. r = Inl (ApiError (Call_UpdatePlayerStatistics pid st)) \<longrightarrow>
            PlayerStatistics s' = PlayerStatistics s \<and>
            UserInternalData s' = UserInternalData s) \<and>
         (\<forall>pid d. r = Inl (ApiError (Call_UpdateUserInternalData pid d)) \<longrightarrow>
            UserInternalData s' = UserInternalData s \<and>
            PlayerStatistics s' = (PlayerStatistics s)
              (currentPlayerId e := set_statistic ''movesMade''
                 (scan_statistics (PlayerStatistics s (currentPlayerId e)) 0 + 1)
                 (PlayerStatistics s (currentPlayerId e)))) \<and>
         (UserInternalData s' \<noteq> UserInternalData s \<longrightarrow> r = Inr True)"
proof -
  have r: "r = fst (processPlayerMove e m s)" and s': "s' = snd (processPlayerMove e m s)"
    using assms by simp_all
  show ?thesis
    unfolding r s'
    using refused_request_aborts [of s e m] statistics_refused_state [of e m s]
      data_refused_state [of e m s] data_changed_only_on_true [of e m s]
    by blast
qed

theorem write_failure_aborts_witness:
  "PlayerStatistics (snd (processPlayerMove (example_env player 1793598120999) 7
          (example_platform None [] refuses_data_update)))
   = (PlayerStatistics (example_platform None [] refuses_data_update))
       (player := [(''movesMade'', 1)]) \<and>
   UserInternalData (snd (processPlayerMove (example_env player 1793598120999) 7
          (example_platform None [] refuses_data_update)))
   = UserInternalData (example_platform None [] refuses_data_update)"
proof -
  let ?e = "example_env player 1793598120999"
  let ?s = "example_platform None [] refuses_data_update"
  have run: "processPlayerMove ?e 7 ?s =
      (fst (processPlayerMove ?e 7 ?s), snd (processPlayerMove ?e 7 ?s))"
    by simp
  have err: "fst (processPlayerMove ?e 7 ?s)
      = Inl (ApiError (Call_UpdateUserInternalData player
              [(''last_move_timestamp'', toUTCString 1793598120999),
               (''last_move'', decimal 7)]))"
    by (simp add: ppm_unfold example_env_def example_platform_def refuses_data_update_def
        player_def)
  have st: "set_statistic ''movesMade''
              (scan_statistics (PlayerStatistics ?s (currentPlayerId ?e)) 0 + 1)
              (PlayerStatistics ?s (currentPlayerId ?e)) = [(''movesMade'', 1)]"
    by (simp add: example_env_def example_platform_def)
  have "UserInternalData (snd (processPlayerMove ?e 7 ?s)) = UserInternalData ?s \<and>
        PlayerStatistics (snd (processPlayerMove ?e 7 ?s)) = (PlayerStatistics ?s)
          (currentPlayerId ?e := set_statistic ''movesMade''
             (scan_statistics (PlayerStatistics ?s (currentPlayerId ?e)) 0 + 1)
             (PlayerStatistics ?s (currentPlayerId ?e)))"
    using write_failure_aborts [OF run] err by blast
  then show ?thesis
    unfolding st by (simp add: example_env_def)
qed

text \<open>
  C3, as stated, fails: with an empty \<open>currentPlayerId\<close> (and equally with none) the call
  is not rejected beforehand; it sends its read to the platform and, on a platform that
  answers, goes on to both writes and returns \<open>true\<close>.
\<close>

theorem empty_playerId_reaches_platform:
  "fst (processPlayerMove (example_env (Some '''') 1793598120999) 7
          (example_platform None [] answers_all)) = Inr True \<and>
   requests (snd (processPlayerMove (example_env (Some '''') 1793598120999) 7
          (example_platform None [] answers_all)))
     = [Call_GetUserInternalData (Some '''') [''last_move_timestamp''],
        Call_GetPlayerStatistics (Some ''''),
        Call_UpdatePlayerStatistics (Some '''') [(''movesMade'', 1)],
        Call_UpdateUserInternalData (Some '''')
          [(''last_move_timestamp'', toUTCString 1793598120999),
           (''last_move'', decimal 7)]] \<and>
   hd (requests (snd (processPlayerMove (example_env None 1793598120999) 7
          (example_platform None [] answers_all))))
     = Call_GetUserInternalData None [''last_move_timestamp'']"
  by (simp add: run_normal_form example_env_def example_platform_def answers_all_def
      player_def)

text \<open>
  C3, amended.  The validator checks neither \<open>currentPlayerId\<close> nor the payload: whatever
  they are, the first thing a call does is send the read of \<open>last_move_timestamp\<close> for
  that player id to the platform.
\<close>

theorem first_action_is_read:
  "take (Suc (length (requests s))) (requests (snd (processPlayerMove e m s))) =
   requests s @ [Call_GetUserInternalData (currentPlayerId e) [''last_move_timestamp'']]"
  unfolding run_normal_form by simp

text \<open>
  C4.  With a stored timestamp that parses to \<open>t\<close> and a platform that answers, the call
  returns \<open>false\<close> exactly when \<open>(now - t) / 1000 < 15\<close> and \<open>true\<close> otherwise;
  in milliseconds, it is accepted exactly when \<open>now - t \<ge> 15000\<close>, the boundary
  included.
\<close>

theorem cooldown_boundary:
  assumes "\<forall>c. \<not> refused s c"
    and "UserInternalData s (currentPlayerId e) ''last_move_timestamp'' = Some v"
    and "Date_parse (Date_parse_other e) v = Some t"
  shows "fst (processPlayerMove e m s) = Inr (\<not> real_of_int (Date_now e - t) / 1000 < 15) \<and>
         fst (processPlayerMove e m s) = Inr (15000 \<le> Date_now e - t)"
  using assms js_less_ms [of "Date_now e" t]
  by (simp add: run_normal_form js_less_def timeSinceLastMoveInSeconds_def not_less)

theorem cooldown_boundary_witness:
  "fst (processPlayerMove (example_env player 1793598135000) 7
          (example_platform (Some (toUTCString 1793598120000)) [] answers_all)) = Inr True"
proof -
  let ?e = "example_env player 1793598135000"
  let ?s = "example_platform (Some (toUTCString 1793598120000)) [] answers_all"
  have a: "\<forall>c. \<not> refused ?s c"
    by (simp add: example_platform_def answers_all_def)
  have b: "UserInternalData ?s (currentPlayerId ?e) ''last_move_timestamp''
             = Some (toUTCString 1793598120000)"
    by (simp add: example_platform_def example_env_def)
  have p: "Date_parse (Date_parse_other ?e) (toUTCString 1793598120000) = Some 1793598120000"
    using Date_parse_toUTCString [of 1793598120000] by simp
  show ?thesis
    using cooldown_boundary [OF a b p, of 7] by (simp add: example_env_def)
qed

text \<open>
  C5.  When the read is answered, the stored timestamp parses to \<open>t\<close> and
  \<open>(now - t) / 1000 < 15\<close>, the call returns \<open>false\<close>, the only request it has sent
  is the read, and the statistics and the player's data (timestamp and payload) are
  what they were.
\<close>

theorem rejection_changes_nothing:
  assumes "\<not> refused s (Call_GetUserInternalData (currentPlayerId e) [''last_move_timestamp''])"
    and "UserInternalData s (currentPlayerId e) ''last_move_timestamp'' = Some v"
    and "Date_parse (Date_parse_other e) v = Some t"
    and "real_of_int (Date_now e - t) / 1000 < 15"
  shows "fst (processPlayerMove e m s) = Inr False \<and>
         PlayerStatistics (snd (processPlayerMove e m s)) = PlayerStatistics s \<and>
         UserInternalData (snd (processPlayerMove e m s)) = UserInternalData s \<and>
         requests (snd (processPlayerMove e m s)) =
           requests s @
           [Call_GetUserInternalData (currentPlayerId e) [''last_move_timestamp'']]"
  using assms
  by (simp add: run_normal_form js_less_def timeSinceLastMoveInSeconds_def)

theorem rejection_changes_nothing_witness:
  "fst (processPlayerMove (example_env player 1793598130000) 7
          (example_platform (Some (toUTCString 1793598120000)) [(''movesMade'', 5)]
             answers_all)) = Inr False \<and>
   PlayerStatistics (snd (processPlayerMove (example_env player 1793598130000) 7
          (example_platform (Some (toUTCString 1793598120000)) [(''movesMade'', 5)]
             answers_all))) player = [(''movesMade'', 5)]"
proof -
  let ?e = "example_env player 1793598130000"
  let ?s = "example_platform (Some (toUTCString 1793598120000)) [(''movesMade'', 5)] answers_all"
  have a: "\<not> refused ?s (Call_GetUserInternalData (currentPlayerId ?e) [''last_move_timestamp''])"
    by (simp add: example_platform_def answers_all_def)
  have b: "UserInternalData ?s (currentPlayerId ?e) ''last_move_timestamp''
             = Some (toUTCString 1793598120000)"
    by (simp add: example_platform_def example_env_def)
  have p: "Date_parse (Date_parse_other ?e) (toUTCString 1793598120000) = Some 1793598120000"
    using Date_parse_toUTCString [of 1793598120000] by simp
  have c: "real_of_int (Date_now ?e - 1793598120000) / 1000 < 15"
    by (simp add: example_env_def)
  show ?thesis
    using rejection_changes_nothing [OF a b p c, of 7] by (simp add: example_platform_def)
qed

text \<open>
  C6.  Two calls that differ only in the payload, on the same clock reading, player and
  platform state, agree on the verdict: one is rejected by the cooldown exactly when the
  other is, and whenever both return a boolean it is the same one.  On platforms that
  answer every request, two calls with the same clock reading, the same date parser and
  the same stored \<open>last_move_timestamp\<close> return the same result, whatever the
  payloads, the player ids, the statistics and the rest of the stored data are.
\<close>

theorem verdict_independent_of_payload:
  "(fst (processPlayerMove e m1 s) = Inr False) = (fst (processPlayerMove e m2 s) = Inr False) \<and>
   (\<forall>b1 b2. fst (processPlayerMove e m1 s) = Inr b1 \<and>
             fst (processPlayerMove e m2 s) = Inr b2 \<longrightarrow> b1 = b2) \<and>
   ((\<forall>c. \<not> refused s c) \<and> (\<forall>c. \<not> refused s' c) \<and>
    Date_now e' = Date_now e \<and> Date_parse_other e' = Date_parse_other e \<and>
    UserInternalData s' (currentPlayerId e') ''last_move_timestamp''
      = UserInternalData s (currentPlayerId e) ''last_move_timestamp''
    \<longrightarrow> fst (processPlayerMove e' m2 s') = fst (processPlayerMove e m1 s))"
  using payload_not_consulted [of e m1 s m2] verdict_determined [of s s' e' e m2 m1]
  by blast

theorem verdict_independent_of_payload_witness:
  "fst (processPlayerMove (example_env player 1793598120999) 8
          (example_platform None [(''movesMade'', 5)] answers_all))
   = fst (processPlayerMove (example_env player 1793598120999) 7
          (example_platform None [] answers_all))"
proof -
  have a: "\<forall>c. \<not> refused (example_platform None [] answers_all) c"
    and b: "\<forall>c. \<not> refused (example_platform None [(''movesMade'', 5)] answers_all) c"
    by (simp_all add: example_platform_def answers_all_def)
  have k: "UserInternalData (example_platform None [(''movesMade'', 5)] answers_all)
             (currentPlayerId (example_env player 1793598120999)) ''last_move_timestamp''
           = UserInternalData (example_platform None [] answers_all)
             (currentPlayerId (example_env player 1793598120999)) ''last_move_timestamp''"
    by (simp add: example_platform_def)
  show ?thesis
    using verdict_independent_of_payload
      [of "example_env player 1793598120999" 7 "example_platform None [] answers_all" 8
          "example_platform None [(''movesMade'', 5)] answers_all"
          "example_env player 1793598120999"] a b k
    by blast
qed

text \<open>
  C7.  When the stored \<open>last_move_timestamp\<close> is present but \<open>Date.parse\<close> gives
  \<open>NaN\<close> for it, the comparison with the cooldown is false and the move is accepted as
  a first move is: on a platform that answers, the call returns \<open>true\<close> and stores the
  timestamp of now.
\<close>

theorem malformed_timestamp_fails_open:
  assumes "\<forall>c. \<not> refused s c"
    and "UserInternalData s (currentPlayerId e) ''last_move_timestamp'' = Some v"
    and "Date_parse (Date_parse_other e) v = None"
  shows "fst (processPlayerMove e m s) = Inr True \<and>
         UserInternalData (snd (processPlayerMove e m s)) (currentPlayerId e)
           ''last_move_timestamp'' = Some (toUTCString (Date_now e))"
  using assms by (simp add: run_normal_form js_less_NaN)

theorem malformed_timestamp_fails_open_witness:
  "fst (processPlayerMove (example_env player 1793598120999) 7
          (example_platform (Some ''a moment ago'') [] answers_all)) = Inr True"
proof -
  let ?e = "example_env player 1793598120999"
  let ?s = "example_platform (Some ''a moment ago'') [] answers_all"
  have a: "\<forall>c. \<not> refused ?s c"
    by (simp add: example_platform_def answers_all_def)
  have b: "UserInternalData ?s (currentPlayerId ?e) ''last_move_timestamp''
             = Some ''a moment ago''"
    by (simp add: example_platform_def example_env_def)
  have p: "Date_parse (Date_parse_other ?e) ''a moment ago'' = None"
    by (simp add: Date_parse_def parseUTCString_def example_env_def parses_nothing_else_def)
  show ?thesis
    using malformed_timestamp_fails_open [OF a b p, of 7] by simp
qed

text \<open>
  C8.  For a player whose data hold no \<open>last_move_timestamp\<close>, on a platform that
  answers, the call returns \<open>true\<close> and stores as \<open>last_move_timestamp\<close> the UTC
  string of now.
\<close>

theorem first_move_accepted:
  assumes "\<forall>c. \<not> refused s c"
    and "UserInternalData s (currentPlayerId e) ''last_move_timestamp'' = None"
  shows "fst (processPlayerMove e m s) = Inr True \<and>
         UserInternalData (snd (processPlayerMove e m s)) (currentPlayerId e)
           ''last_move_timestamp'' = Some (toUTCString (Date_now e))"
  using assms by (simp add: run_normal_form)

theorem first_move_accepted_witness:
  "fst (processPlayerMove (example_env player 1793598120999) 7
          (example_platform None [] answers_all)) = Inr True \<and>
   UserInternalData (snd (processPlayerMove (example_env player 1793598120999) 7
          (example_platform None [] answers_all))) player ''last_move_timestamp''
     = Some (toUTCString 1793598120999)"
proof -
  let ?e = "example_env player 1793598120999"
  let ?s = "example_platform None [] answers_all"
  have a: "\<forall>c. \<not> refused ?s c"
    by (simp add: example_platform_def answers_all_def)
  have b: "UserInternalData ?s (currentPlayerId ?e) ''last_move_timestamp'' = None"
    by (simp add: example_platform_def example_env_def)
  show ?thesis
    using first_move_accepted [OF a b, of 7] by (simp add: example_env_def)
qed

text \<open>
  C9.  When a call made at a clock reading within the years 0000 to 9999 returns
  \<open>true\<close> against a stored timestamp that parses to \<open>t\<close>, the timestamp it stores
  is the UTC string of now, which parses to now cut to the whole second, and that is
  not before \<open>t\<close>.
\<close>

theorem timestamp_monotone:
  assumes "- 62167219200000 \<le> Date_now e" and "Date_now e < 253402300800000"
    and "UserInternalData s (currentPlayerId e) ''last_move_timestamp'' = Some v"
    and "Date_parse (Date_parse_other e) v = Some t"
    and "fst (processPlayerMove e m s) = Inr True"
  shows "UserInternalData (snd (processPlayerMove e m s)) (currentPlayerId e)
           ''last_move_timestamp'' = Some (toUTCString (Date_now e)) \<and>
         Date_parse (Date_parse_other e) (toUTCString (Date_now e))
           = Some (Date_now e - Date_now e mod 1000) \<and>
         t \<le> Date_now e - Date_now e mod 1000"
proof -
  have "\<not> Date_now e - t < 15000"
    using assms(3,4,5) js_less_ms [of "Date_now e" t]
    unfolding run_normal_form by (simp split: if_splits)
  moreover have "Date_now e mod 1000 < 1000" by simp
  ultimately have "t \<le> Date_now e - Date_now e mod 1000" by linarith
  moreover have "UserInternalData (snd (processPlayerMove e m s)) (currentPlayerId e)
           ''last_move_timestamp'' = Some (toUTCString (Date_now e))"
    using assms(5) unfolding run_normal_form by (simp split: if_splits)
  ultimately show ?thesis
    using Date_parse_toUTCString [OF assms(1,2)] by simp
qed

theorem timestamp_monotone_witness:
  "UserInternalData (snd (processPlayerMove (example_env player 1793598135999) 7
      (example_platform (Some (toUTCString 1793598120000)) [] answers_all)))
      player ''last_move_timestamp'' = Some (toUTCString 1793598135999) \<and>
   Date_parse parses_nothing_else (toUTCString 1793598135999) = Some 1793598135000 \<and>
   (1793598120000 :: int) \<le> 1793598135000"
proof -
  let ?e = "example_env player 1793598135999"
  let ?s = "example_platform (Some (toUTCString 1793598120000)) [] answers_all"
  have a: "- 62167219200000 \<le> Date_now ?e" "Date_now ?e < 253402300800000"
    by (simp_all add: example_env_def)
  have b: "UserInternalData ?s (currentPlayerId ?e) ''last_move_timestamp''
             = Some (toUTCString 1793598120000)"
    by (simp add: example_platform_def example_env_def)
  have p: "Date_parse (Date_parse_other ?e) (toUTCString 1793598120000) = Some 1793598120000"
    using Date_parse_toUTCString [of 1793598120000] by simp
  have r: "fst (processPlayerMove ?e 7 ?s) = Inr True"
    using p
    by (simp add: run_normal_form js_less_ms example_env_def example_platform_def
        answers_all_def)
  show ?thesis
    using timestamp_monotone [OF a b p r] by (simp add: example_env_def)
qed

text \<open>
  C10.  For a clock reading within the years 0000 to 9999, the timestamp stored on
  acceptance parses back to that reading cut to the whole second, up to 999 ms earlier.
  So the next call, on a platform that answers, is accepted exactly when the real gap
  plus the milliseconds cut off reaches 15000 ms: a move accepted at a reading ending in
  999 ms is followed by an accepted move 14001 ms later.
\<close>

theorem timestamp_precision_loss:
  assumes "- 62167219200000 \<le> Date_now e1" and "Date_now e1 < 253402300800000"
    and "\<forall>c. \<not> refused s c"
    and "fst (processPlayerMove e1 m1 s) = Inr True"
    and "currentPlayerId e2 = currentPlayerId e1"
  shows "Date_parse (Date_parse_other e2) (toUTCString (Date_now e1))
           = Some (Date_now e1 - Date_now e1 mod 1000) \<and>
         0 \<le> Date_now e1 mod 1000 \<and> Date_now e1 mod 1000 \<le> 999 \<and>
         fst (processPlayerMove e2 m2 (snd (processPlayerMove e1 m1 s)))
           = Inr (15000 \<le> Date_now e2 - Date_now e1 + Date_now e1 mod 1000) \<and>
         (Date_now e1 mod 1000 = 999 \<and> Date_now e2 = Date_now e1 + 14001 \<longrightarrow>
            fst (processPlayerMove e2 m2 (snd (processPlayerMove e1 m1 s))) = Inr True)"
proof -
  let ?s1 = "snd (processPlayerMove e1 m1 s)"
  have p: "Date_parse (Date_parse_other e2) (toUTCString (Date_now e1))
             = Some (Date_now e1 - Date_now e1 mod 1000)"
    by (rule Date_parse_toUTCString [OF assms(1,2)])
  have st: "UserInternalData ?s1 (currentPlayerId e2) ''last_move_timestamp''
              = Some (toUTCString (Date_now e1))"
    using assms(4,5) unfolding run_normal_form by (simp split: if_splits)
  have rf: "\<forall>c. \<not> refused ?s1 c"
    using assms(3) unfolding run_normal_form by simp
  have "fst (processPlayerMove e2 m2 ?s1)
          = Inr (\<not> js_less (timeSinceLastMoveInSeconds (Date_now e2)
                   (Some (Date_now e1 - Date_now e1 mod 1000))) 15)"
    using rf st p unfolding run_normal_form [of e2 m2 ?s1] by simp
  then have "fst (processPlayerMove e2 m2 ?s1)
          = Inr (15000 \<le> Date_now e2 - Date_now e1 + Date_now e1 mod 1000)"
    unfolding js_less_ms by (simp add: not_less algebra_simps)
  moreover have "0 \<le> Date_now e1 mod 1000" "Date_now e1 mod 1000 \<le> 999"
    by simp_all
  ultimately show ?thesis using p by simp
qed

theorem timestamp_precision_loss_witness:
  "fst (processPlayerMove (example_env player 1793598120999) 7
          (example_platform None [] answers_all)) = Inr True \<and>
   fst (processPlayerMove (example_env player (1793598120999 + 14001)) 8
          (snd (processPlayerMove (example_env player 1793598120999) 7
                  (example_platform None [] answers_all)))) = Inr True"
proof -
  let ?e1 = "example_env player 1793598120999"
  let ?e2 = "example_env player (1793598120999 + 14001)"
  let ?s = "example_platform None [] answers_all"
  have a: "- 62167219200000 \<le> Date_now ?e1" "Date_now ?e1 < 253402300800000"
    by (simp_all add: example_env_def)
  have b: "\<forall>c. \<not> refused ?s c"
    by (simp add: example_platform_def answers_all_def)
  have r: "fst (processPlayerMove ?e1 7 ?s) = Inr True"
    by (simp add: run_normal_form example_env_def example_platform_def answers_all_def)
  have c: "currentPlayerId ?e2 = currentPlayerId ?e1"
    by (simp add: example_env_def)
  have "fst (processPlayerMove ?e2 8 (snd (processPlayerMove ?e1 7 ?s)))
          = Inr (15000 \<le> Date_now ?e2 - Date_now ?e1 + Date_now ?e1 mod 1000)"
    using timestamp_precision_loss [OF a b r c, of 8] by blast
  then show ?thesis using r by (simp add: example_env_def)
qed

end
